theory Spec2Isabelle
  imports Main "HOL-Library.Word"
begin

section \<open>The PPAPI static object graph (static\_object.h, static\_object.cc)\<close>

subsection \<open>Host values\<close>

text \<open>
  Modelled from the spec: the host value class \<open>pp::Var\<close> is declared in the host's own
  headers (ppapi/cpp/var.h), which are not part of the sources. The spec lists its kinds:
  undefined, null, boolean, number, string, object reference. An object reference holds
  the address of the scriptable wrapper it was built from. The default constructor
  \<open>pp::Var()\<close> gives the undefined value.
\<close>

type_synonym addr = nat

datatype Var = Undefined | Null | Bool bool | Number int | String string | Object addr

definition is_undefined :: "Var \<Rightarrow> bool" where
  "is_undefined v = (v = Undefined)"

definition is_null :: "Var \<Rightarrow> bool" where
  "is_null v = (v = Null)"

fun is_string :: "Var \<Rightarrow> bool" where
  "is_string (String s) = True"
| "is_string v = False"

fun AsString :: "Var \<Rightarrow> string" where
  "AsString (String s) = s"
| "AsString v = []"

subsection \<open>Objects, wrappers and the store\<close>

text \<open>
  A pointer is \<open>addr option\<close>, \<open>None\<close> being \<open>NULL\<close>. \<open>StaticObject\<close> has the two private
  fields of the class (written without the trailing underscore); \<open>namespace_objects\<close>
  is a hash map from names to pointers.
  \<open>pp::InstancePrivate*\<close> is an opaque handle.
\<close>

type_synonym InstancePrivate = nat

record StaticObject =
  base_class :: "addr option"
  namespace_objects :: "string \<rightharpoonup> addr option"

record StaticObjectWrapper =
  wrapper_instance :: InstancePrivate
  static_object :: "addr option"

text \<open>
  The store: the static objects by address, and the wrappers allocated by \<open>new\<close>, a
  wrapper's address being its position in the list.
\<close>

record world =
  objects :: "addr \<rightharpoonup> StaticObject"
  wrappers :: "StaticObjectWrapper list"

text \<open>
  A call either returns, or dereferences a pointer that is null or dangling
  (\<open>Fault\<close>). A call that recurses for ever along a cyclic base chain is \<open>None\<close> of the
  enclosing option.
\<close>

datatype 'a outcome = Fault | Ret 'a

subsection \<open>Registry operations\<close>

definition StaticObject_new :: StaticObject where
  "StaticObject_new = \<lparr>base_class = None, namespace_objects = Map.empty\<rparr>"

definition SetBaseClass :: "world \<Rightarrow> addr \<Rightarrow> addr option \<Rightarrow> world outcome" where
  "SetBaseClass w this base =
     (case objects w this of
        None \<Rightarrow> Fault
      | Some obj \<Rightarrow> Ret (w\<lparr>objects := (objects w)(this \<mapsto> obj\<lparr>base_class := base\<rparr>)\<rparr>))"

definition AddNamespaceObject :: "world \<Rightarrow> addr \<Rightarrow> string \<Rightarrow> addr option \<Rightarrow> world outcome" where
  "AddNamespaceObject w this name object =
     (case objects w this of
        None \<Rightarrow> Fault
      | Some obj \<Rightarrow>
          Ret (w\<lparr>objects := (objects w)(this \<mapsto>
                 obj\<lparr>namespace_objects := (namespace_objects obj)(name \<mapsto> object)\<rparr>)\<rparr>))"

definition GetNamespaceObject :: "world \<Rightarrow> addr \<Rightarrow> string \<Rightarrow> (addr option) outcome" where
  "GetNamespaceObject w this namespace_name =
     (case objects w this of
        None \<Rightarrow> Fault
      | Some obj \<Rightarrow>
          (case namespace_objects obj namespace_name of
             Some p \<Rightarrow> Ret p
           | None \<Rightarrow> Ret None))"

text \<open>
  \<open>CreateWrapper\<close> is a virtual call on the object: it faults on a null or dangling
  pointer, otherwise allocates a wrapper of the instance and the object.
\<close>

definition CreateWrapper :: "world \<Rightarrow> addr option \<Rightarrow> InstancePrivate \<Rightarrow> (addr \<times> world) outcome" where
  "CreateWrapper w this inst =
     (case this of
        None \<Rightarrow> Fault
      | Some a \<Rightarrow>
          (case objects w a of
             None \<Rightarrow> Fault
           | Some obj \<Rightarrow>
               Ret (length (wrappers w),
                    w\<lparr>wrappers := wrappers w @ [\<lparr>wrapper_instance = inst, static_object = Some a\<rparr>]\<rparr>)))"

subsection \<open>Resolution along the base chain\<close>

partial_function (option) HasMethodInner ::
  "world \<Rightarrow> addr \<Rightarrow> string \<Rightarrow> (bool \<times> world) outcome option" where
  "HasMethodInner w this method =
     (case objects w this of
        None \<Rightarrow> Some Fault
      | Some obj \<Rightarrow>
          (case base_class obj of
             Some b \<Rightarrow> HasMethodInner w b method
           | None \<Rightarrow> Some (Ret (False, w))))"

partial_function (option) HasPropertyInner ::
  "world \<Rightarrow> addr \<Rightarrow> string \<Rightarrow> (bool \<times> world) outcome option" where
  "HasPropertyInner w this property =
     (case objects w this of
        None \<Rightarrow> Some Fault
      | Some obj \<Rightarrow>
          (case namespace_objects obj property of
             Some p \<Rightarrow> Some (Ret (True, w))
           | None \<Rightarrow>
               (case base_class obj of
                  Some b \<Rightarrow> HasPropertyInner w b property
                | None \<Rightarrow> Some (Ret (False, w)))))"

text \<open>The result is (return value, exception slot, result slot, store).\<close>

partial_function (option) GetPropertyInner ::
  "world \<Rightarrow> addr \<Rightarrow> InstancePrivate \<Rightarrow> string \<Rightarrow> Var \<Rightarrow> Var \<Rightarrow>
     (bool \<times> Var \<times> Var \<times> world) outcome option" where
  "GetPropertyInner w this inst property exception result =
     (case objects w this of
        None \<Rightarrow> Some Fault
      | Some obj \<Rightarrow>
          (case namespace_objects obj property of
             Some p \<Rightarrow>
               (case CreateWrapper w p inst of
                  Fault \<Rightarrow> Some Fault
                | Ret (wa, w') \<Rightarrow> Some (Ret (True, exception, Object wa, w')))
           | None \<Rightarrow>
               (case base_class obj of
                  Some b \<Rightarrow> GetPropertyInner w b inst property exception result
                | None \<Rightarrow>
                    Some (Ret (False,
                               (if is_null exception then String ''unknown property''
                                else exception),
                               result, w)))))"

text \<open>The result is (names, exception slot, store).\<close>

partial_function (option) GetAllPropertyNames ::
  "world \<Rightarrow> addr \<Rightarrow> Var list \<Rightarrow> Var \<Rightarrow> (Var list \<times> Var \<times> world) outcome option" where
  "GetAllPropertyNames w this names exception =
     (case objects w this of
        None \<Rightarrow> Some Fault
      | Some obj \<Rightarrow>
          (case base_class obj of
             Some b \<Rightarrow> GetAllPropertyNames w b names exception
           | None \<Rightarrow> Some (Ret (names, exception, w))))"

text \<open>The result is (return value, exception slot, store).\<close>

partial_function (option) SetPropertyInner ::
  "world \<Rightarrow> addr \<Rightarrow> string \<Rightarrow> Var \<Rightarrow> Var \<Rightarrow> (bool \<times> Var \<times> world) outcome option" where
  "SetPropertyInner w this name val exception =
     (case objects w this of
        None \<Rightarrow> Some Fault
      | Some obj \<Rightarrow>
          (case base_class obj of
             Some b \<Rightarrow> SetPropertyInner w b name val exception
           | None \<Rightarrow>
               Some (Ret (False,
                          (if is_null exception then String ''unknown property''
                           else exception),
                          w))))"

partial_function (option) CallInner ::
  "world \<Rightarrow> addr \<Rightarrow> InstancePrivate \<Rightarrow> string \<Rightarrow> Var list \<Rightarrow> Var \<Rightarrow> Var \<Rightarrow>
     (bool \<times> Var \<times> Var \<times> world) outcome option" where
  "CallInner w this inst method args exception result =
     (case objects w this of
        None \<Rightarrow> Some Fault
      | Some obj \<Rightarrow>
          (case base_class obj of
             Some b \<Rightarrow> CallInner w b inst method args exception result
           | None \<Rightarrow>
               Some (Ret (False,
                          (if is_null exception then String ''method does not exist''
                           else exception),
                          result, w))))"

text \<open>
  \<open>ConstructInner\<close> reads no field of its object; the virtual dispatch that reaches it is
  the caller's dereference.
\<close>

definition ConstructInner ::
  "world \<Rightarrow> addr \<Rightarrow> InstancePrivate \<Rightarrow> Var list \<Rightarrow> Var \<Rightarrow> Var \<Rightarrow> (bool \<times> Var \<times> Var \<times> world) outcome" where
  "ConstructInner w this inst args exception result =
     Ret (False, String ''missing constructor'', result, w)"

subsection \<open>The wrapper (\<open>StaticObjectWrapper\<close>)\<close>

definition plugin_instance :: "StaticObjectWrapper \<Rightarrow> InstancePrivate" where
  "plugin_instance sw = wrapper_instance sw"

text \<open>The boolean operations return (return value, exception slot, store).\<close>

definition HasMethod ::
  "world \<Rightarrow> StaticObjectWrapper \<Rightarrow> Var \<Rightarrow> Var \<Rightarrow> (bool \<times> Var \<times> world) outcome option" where
  "HasMethod w sw method exception =
     (if is_string method then
        (case static_object sw of
           None \<Rightarrow> Some Fault
         | Some a \<Rightarrow>
             (case HasMethodInner w a (AsString method) of
                None \<Rightarrow> None
              | Some Fault \<Rightarrow> Some Fault
              | Some (Ret (r, w')) \<Rightarrow> Some (Ret (r, exception, w'))))
      else Some (Ret (False, String ''method name is not a string'', w)))"

definition HasProperty ::
  "world \<Rightarrow> StaticObjectWrapper \<Rightarrow> Var \<Rightarrow> Var \<Rightarrow> (bool \<times> Var \<times> world) outcome option" where
  "HasProperty w sw name exception =
     (if is_string name then
        (case static_object sw of
           None \<Rightarrow> Some Fault
         | Some a \<Rightarrow>
             (case HasPropertyInner w a (AsString name) of
                None \<Rightarrow> None
              | Some Fault \<Rightarrow> Some Fault
              | Some (Ret (r, w')) \<Rightarrow> Some (Ret (r, exception, w'))))
      else Some (Ret (False, String ''property name is not a string'', w)))"

text \<open>
  The operations that return a host value return (value, exception slot, store); the
  boolean of the inner call is dropped, as in the source.
\<close>

definition GetProperty ::
  "world \<Rightarrow> StaticObjectWrapper \<Rightarrow> Var \<Rightarrow> Var \<Rightarrow> (Var \<times> Var \<times> world) outcome option" where
  "GetProperty w sw name exception =
     (let result = Undefined in
      if \<not> is_string name then
        Some (Ret (result, String ''property name is not a string'', w))
      else
        (case static_object sw of
           None \<Rightarrow> Some Fault
         | Some a \<Rightarrow>
             (case GetPropertyInner w a (plugin_instance sw) (AsString name) exception result of
                None \<Rightarrow> None
              | Some Fault \<Rightarrow> Some Fault
              | Some (Ret (ok, exception', result', w')) \<Rightarrow> Some (Ret (result', exception', w')))))"

definition Wrapper_GetAllPropertyNames ::
  "world \<Rightarrow> StaticObjectWrapper \<Rightarrow> Var list \<Rightarrow> Var \<Rightarrow> (Var list \<times> Var \<times> world) outcome option" where
  "Wrapper_GetAllPropertyNames w sw names exception =
     (case static_object sw of
        None \<Rightarrow> Some Fault
      | Some a \<Rightarrow> GetAllPropertyNames w a names exception)"

text \<open>\<open>SetProperty\<close> returns (exception slot, store).\<close>

definition SetProperty ::
  "world \<Rightarrow> StaticObjectWrapper \<Rightarrow> Var \<Rightarrow> Var \<Rightarrow> Var \<Rightarrow> (Var \<times> world) outcome option" where
  "SetProperty w sw name val exception =
     (if is_string name then
        (case static_object sw of
           None \<Rightarrow> Some Fault
         | Some a \<Rightarrow>
             (case SetPropertyInner w a (AsString name) val exception of
                None \<Rightarrow> None
              | Some Fault \<Rightarrow> Some Fault
              | Some (Ret (ok, exception', w')) \<Rightarrow> Some (Ret (exception', w'))))
      else Some (Ret (String ''property name is not a string'', w)))"

definition Construct ::
  "world \<Rightarrow> StaticObjectWrapper \<Rightarrow> Var list \<Rightarrow> Var \<Rightarrow> (Var \<times> Var \<times> world) outcome option" where
  "Construct w sw args exception =
     (let result = Undefined in
      case static_object sw of
        None \<Rightarrow> Some Fault
      | Some a \<Rightarrow>
          (case objects w a of
             None \<Rightarrow> Some Fault
           | Some obj \<Rightarrow>
               (case ConstructInner w a (plugin_instance sw) args exception result of
                  Fault \<Rightarrow> Some Fault
                | Ret (ok, exception', result', w') \<Rightarrow> Some (Ret (result', exception', w')))))"

definition Call ::
  "world \<Rightarrow> StaticObjectWrapper \<Rightarrow> Var \<Rightarrow> Var list \<Rightarrow> Var \<Rightarrow> (Var \<times> Var \<times> world) outcome option" where
  "Call w sw method args exception =
     (let result = Undefined in
      if is_undefined method then Construct w sw args exception
      else if \<not> is_string method then
        Some (Ret (result, String ''method name is not a string'', w))
      else
        (case static_object sw of
           None \<Rightarrow> Some Fault
         | Some a \<Rightarrow>
             (case CallInner w a (plugin_instance sw) (AsString method) args exception result of
                None \<Rightarrow> None
              | Some Fault \<Rightarrow> Some Fault
              | Some (Ret (ok, exception', result', w')) \<Rightarrow> Some (Ret (result', exception', w')))))"

subsection \<open>Base chains\<close>

text \<open>
  \<open>ancestor w n a\<close> is the object reached from \<open>a\<close> by following \<open>n\<close> base links, when
  all the objects on the way exist and the links are not null.
\<close>

fun ancestor :: "world \<Rightarrow> nat \<Rightarrow> addr \<Rightarrow> addr option" where
  "ancestor w 0 a = (case objects w a of None \<Rightarrow> None | Some obj \<Rightarrow> Some a)"
| "ancestor w (Suc n) a =
     (case objects w a of
        None \<Rightarrow> None
      | Some obj \<Rightarrow> (case base_class obj of None \<Rightarrow> None | Some b \<Rightarrow> ancestor w n b))"

text \<open>The object at an address has the name among its own children.\<close>

definition has_child :: "world \<Rightarrow> addr \<Rightarrow> string \<Rightarrow> bool" where
  "has_child w a name =
     (case objects w a of None \<Rightarrow> False | Some obj \<Rightarrow> namespace_objects obj name \<noteq> None)"

text \<open>None of the first \<open>n\<close> objects of the chain from \<open>a\<close> has the name among its children.\<close>

fun absent_below :: "world \<Rightarrow> nat \<Rightarrow> addr \<Rightarrow> string \<Rightarrow> bool" where
  "absent_below w 0 a name = True"
| "absent_below w (Suc n) a name =
     (\<not> has_child w a name \<and>
      (case objects w a of
         None \<Rightarrow> True
       | Some obj \<Rightarrow> (case base_class obj of None \<Rightarrow> True | Some b \<Rightarrow> absent_below w n b name)))"

text \<open>The chain from \<open>a\<close> ends after \<open>n\<close> links: its object at depth \<open>n\<close> has a null base.\<close>

definition chain_ends :: "world \<Rightarrow> nat \<Rightarrow> addr \<Rightarrow> bool" where
  "chain_ends w n a =
     (case ancestor w n a of
        None \<Rightarrow> False
      | Some e \<Rightarrow> (case objects w e of None \<Rightarrow> False | Some obj \<Rightarrow> base_class obj = None))"

section \<open>The NPAPI value marshaller (npapi/common.cc)\<close>

subsection \<open>Text conversion\<close>

text \<open>
  \<open>UTF8ToString16 (in, len, out16)\<close> and \<open>String16ToUTF8 (in, len, out8)\<close> take a buffer and
  its length; the model takes the list of the \<open>len\<close> elements of the buffer, and the old
  content of the output string, and returns the boolean and the output string. Both
  functions start with the same test of \<open>len == 0\<close> and then have one body per platform,
  chosen by the preprocessor. The \<open>OS_LINUX\<close> and \<open>OS_WINDOWS\<close> bodies are modelled; the
  \<open>OS_MACOSX\<close> body consists of CoreFoundation calls only and is left out.
\<close>

type_synonym byte = "8 word"

text \<open>
  \<open>OS_LINUX\<close>: the strings are copied element by element with the implicit conversions of
  the language. \<open>wchar_t\<close> has 32 bits; whether \<open>char\<close> is signed depends on the target, so
  it is a parameter. Narrowing keeps the low 8 bits.
\<close>

definition char_to_wchar :: "bool \<Rightarrow> byte \<Rightarrow> 32 word" where
  "char_to_wchar char_signed c = (if char_signed then scast c else ucast c)"

definition wchar_to_char :: "32 word \<Rightarrow> byte" where
  "wchar_to_char c = ucast c"

definition UTF8ToString16_linux ::
  "bool \<Rightarrow> byte list \<Rightarrow> 32 word list \<Rightarrow> bool \<times> 32 word list" where
  "UTF8ToString16_linux char_signed inp out16 =
     (if length inp = 0 then (True, [])
      else (True, map (char_to_wchar char_signed) inp))"

definition String16ToUTF8_linux :: "32 word list \<Rightarrow> byte list \<Rightarrow> bool \<times> byte list" where
  "String16ToUTF8_linux inp out8 =
     (if length inp = 0 then (True, [])
      else (True, map wchar_to_char inp))"

text \<open>
  \<open>OS_WINDOWS\<close>: \<open>wchar_t\<close> has 16 bits. The platform conversion is a parameter: the
  function gives the characters the call writes for an input, and the count the call
  returns is their number, 0 when it fails. The source calls it twice, first for the
  count, then to fill the buffer \<open>tmp\<close>. It then stores a 0 after the buffer and assigns
  \<open>tmp\<close> to the output as a zero-terminated string: \<open>c_str\<close> is what that assignment reads.
\<close>

definition c_str :: "'a::zero list \<Rightarrow> 'a list" where
  "c_str tmp = takeWhile (\<lambda>c. c \<noteq> 0) (tmp @ [0])"

definition UTF8ToString16_windows ::
  "(byte list \<Rightarrow> 16 word list) \<Rightarrow> byte list \<Rightarrow> 16 word list \<Rightarrow> bool \<times> 16 word list" where
  "UTF8ToString16_windows MultiByteToWideChar inp out16 =
     (if length inp = 0 then (True, [])
      else
        (let out_len = int (length (MultiByteToWideChar inp)) in
         if out_len \<le> 0 then (False, out16)
         else
           (let tmp = MultiByteToWideChar inp; out_len = int (length tmp) in
            if out_len \<le> 0 then (False, out16)
            else (True, c_str tmp))))"

definition String16ToUTF8_windows ::
  "(16 word list \<Rightarrow> byte list) \<Rightarrow> 16 word list \<Rightarrow> byte list \<Rightarrow> bool \<times> byte list" where
  "String16ToUTF8_windows WideCharToMultiByte inp out8 =
     (if length inp = 0 then (True, [])
      else
        (let out_len = int (length (WideCharToMultiByte inp)) in
         if out_len \<le> 0 then (False, out8)
         else
           (let tmp = WideCharToMultiByte inp; out_len = int (length tmp) in
            if out_len \<le> 0 then (False, out8)
            else (True, c_str tmp))))"

text \<open>
  A stand-in for the two platform conversions on 7-bit text, where UTF-8 and UTF-16 have
  the same code units: each unit is widened, or narrowed.
\<close>

definition widen_units :: "byte list \<Rightarrow> 16 word list" where
  "widen_units bs = map ucast bs"

definition narrow_units :: "16 word list \<Rightarrow> byte list" where
  "narrow_units ws = map ucast ws"

subsection \<open>The browser\<close>

text \<open>
  Modelled from the spec: the host's variant type and the macros \<open>VOID_TO_NPVARIANT\<close> and
  \<open>STRINGN_TO_NPVARIANT\<close> come from the host's header npruntime.h, and the functions
  \<open>NPN_MemAlloc\<close>, \<open>NPN_HasProperty\<close>, \<open>NPN_GetProperty\<close>, \<open>NPN_GetStringIdentifier\<close>,
  \<open>NPN_GetIntIdentifier\<close> and \<open>IsHasPropertyWorkaround\<close> are declared in npn\_api.h and
  common.h of the NPAPI glue; none of them is part of the sources. The browser is a record
  of what the host answers, of the memory blocks it has handed out, and of the calls it
  has received. The size that \<open>NPN_MemAlloc\<close> takes and the length that a string
  variant holds next to its pointer are unsigned 32-bit integers.
\<close>

datatype NPVariant =
  VoidV | NullV | BoolV bool | Int32V int | StringV addr "32 word" | ObjectV addr

datatype NPIdentifier = StringId string | IntId int

datatype npn_call =
  MemAllocCall "32 word" | HasPropertyCall addr NPIdentifier | GetPropertyCall addr NPIdentifier

record browser =
  memory :: "addr \<rightharpoonup> byte list"
  mem_alloc_answer :: "32 word \<Rightarrow> addr option"
  has_property_answer :: "addr \<Rightarrow> NPIdentifier \<Rightarrow> bool"
  get_property_answer :: "addr \<Rightarrow> NPIdentifier \<Rightarrow> bool \<times> NPVariant option"
  has_property_workaround :: bool
  calls :: "npn_call list"

type_synonym NPP = nat

definition NPN_MemAlloc :: "browser \<Rightarrow> 32 word \<Rightarrow> addr option \<times> browser" where
  "NPN_MemAlloc b n =
     (mem_alloc_answer b n,
      b\<lparr>memory := (case mem_alloc_answer b n of
                     None \<Rightarrow> memory b
                   | Some p \<Rightarrow> (memory b)(p \<mapsto> replicate (unat n) 0)),
        calls := calls b @ [MemAllocCall n]\<rparr>)"

text \<open>
  \<open>memcpy\<close> writes \<open>n\<close> bytes of the source over the start of the block at the
  destination. Its count is a \<open>size_t\<close>, a natural number here. Writing past the end of
  the block, or to no block, is a fault.
\<close>

definition memcpy :: "browser \<Rightarrow> addr \<Rightarrow> byte list \<Rightarrow> nat \<Rightarrow> browser outcome" where
  "memcpy b dst src n =
     (case memory b dst of
        None \<Rightarrow> Fault
      | Some block \<Rightarrow>
          (if n \<le> length block
           then Ret (b\<lparr>memory := (memory b)(dst \<mapsto> take n src @ drop n block)\<rparr>)
           else Fault))"

definition NPN_GetStringIdentifier :: "string \<Rightarrow> NPIdentifier" where
  "NPN_GetStringIdentifier name = StringId name"

definition NPN_GetIntIdentifier :: "int \<Rightarrow> NPIdentifier" where
  "NPN_GetIntIdentifier index = IntId index"

definition NPN_HasProperty :: "browser \<Rightarrow> NPP \<Rightarrow> addr \<Rightarrow> NPIdentifier \<Rightarrow> bool \<times> browser" where
  "NPN_HasProperty b npp object identifier =
     (has_property_answer b object identifier,
      b\<lparr>calls := calls b @ [HasPropertyCall object identifier]\<rparr>)"

text \<open>The fetch returns (return value, output variant, browser).\<close>

definition NPN_GetProperty ::
  "browser \<Rightarrow> NPP \<Rightarrow> addr \<Rightarrow> NPIdentifier \<Rightarrow> NPVariant \<Rightarrow> bool \<times> NPVariant \<times> browser" where
  "NPN_GetProperty b npp object identifier output =
     (case get_property_answer b object identifier of
        (ok, v) \<Rightarrow>
          (ok, (case v of None \<Rightarrow> output | Some x \<Rightarrow> x),
           b\<lparr>calls := calls b @ [GetPropertyCall object identifier]\<rparr>))"

definition IsHasPropertyWorkaround :: "browser \<Rightarrow> bool" where
  "IsHasPropertyWorkaround b = has_property_workaround b"


subsection \<open>Variants from strings\<close>

text \<open>
  Both functions return (return value, variant, browser), or fault. In
  \<open>StringToNPVariant\<close> the length of the string is a \<open>size_t\<close>; it is narrowed to 32 bits
  where it is passed to \<open>NPN_MemAlloc\<close> and where the macro stores it in the variant, and
  it is passed as it is to \<open>memcpy\<close>.
\<close>

definition StringToNPVariant ::
  "browser \<Rightarrow> byte list \<Rightarrow> (bool \<times> NPVariant \<times> browser) outcome" where
  "StringToNPVariant b inp =
     (let len = length inp in
      case NPN_MemAlloc b (of_nat len) of
        (chars, b1) \<Rightarrow>
          (case chars of
             None \<Rightarrow> Ret (False, VoidV, b1)
           | Some p \<Rightarrow>
               (case memcpy b1 p inp len of
                  Fault \<Rightarrow> Fault
                | Ret b2 \<Rightarrow> Ret (True, StringV p (of_nat len), b2))))"

text \<open>
  \<open>String16ToNPVariant\<close> passes \<open>in.size()\<close> for the parameter \<open>int len\<close> of
  \<open>String16ToUTF8\<close>, which narrows it to a signed 32-bit integer. A negative \<open>len\<close> fails
  the assertion \<open>len >= 0\<close>, and with assertions compiled out the string constructor
  throws: the call does not return. Otherwise \<open>String16ToUTF8\<close> reads the first \<open>len\<close>
  units.
\<close>

definition String16ToNPVariant_linux ::
  "browser \<Rightarrow> 32 word list \<Rightarrow> (bool \<times> NPVariant \<times> browser) outcome" where
  "String16ToNPVariant_linux b inp =
     (let len = sint (of_nat (length inp) :: 32 word) in
      if len < 0 then Fault
      else
        (case String16ToUTF8_linux (take (nat len) inp) [] of
           (r, out8) \<Rightarrow> (if \<not> r then Ret (False, VoidV, b) else StringToNPVariant b out8)))"

subsection \<open>Property fetch\<close>

text \<open>
  The profiling macros expand to nothing unless profiling is compiled in. Both functions
  return (return value, output variant, browser).
\<close>

definition GetNPObjectProperty ::
  "browser \<Rightarrow> NPP \<Rightarrow> addr \<Rightarrow> string \<Rightarrow> NPVariant \<Rightarrow> bool \<times> NPVariant \<times> browser" where
  "GetNPObjectProperty b npp object name output =
     (let identifier = NPN_GetStringIdentifier name in
      case NPN_HasProperty b npp object identifier of
        (result, b1) \<Rightarrow>
          (if \<not> result then (False, output, b1)
           else NPN_GetProperty b1 npp object identifier output))"

definition GetNPArrayProperty ::
  "browser \<Rightarrow> NPP \<Rightarrow> addr \<Rightarrow> int \<Rightarrow> NPVariant \<Rightarrow> bool \<times> NPVariant \<times> browser" where
  "GetNPArrayProperty b npp object index output =
     (let identifier = NPN_GetIntIdentifier index in
      if \<not> IsHasPropertyWorkaround b then
        (case NPN_HasProperty b npp object identifier of
           (result, b1) \<Rightarrow>
             (if \<not> result then (False, output, b1)
              else NPN_GetProperty b1 npp object identifier output))
      else NPN_GetProperty b npp object identifier output)"

section \<open>Example graphs and browsers\<close>

text \<open>
  A chain of three objects, 10 with base 11 with base 12, and a fourth object 13 that is
  registered under the name x on 12 and nowhere else.
\<close>

definition chain_world :: world where
  "chain_world =
     \<lparr>objects = [10 \<mapsto> \<lparr>base_class = Some 11, namespace_objects = Map.empty\<rparr>,
                 11 \<mapsto> \<lparr>base_class = Some 12, namespace_objects = Map.empty\<rparr>,
                 12 \<mapsto> \<lparr>base_class = None, namespace_objects = Map.empty\<rparr>,
                 13 \<mapsto> StaticObject_new],
      wrappers = []\<rparr>"

definition the_world :: "world outcome \<Rightarrow> world" where
  "the_world r = (case r of Ret w \<Rightarrow> w | Fault \<Rightarrow> \<lparr>objects = Map.empty, wrappers = []\<rparr>)"

definition registered_world :: world where
  "registered_world = the_world (AddNamespaceObject chain_world 12 ''x'' (Some 13))"

text \<open>The same graph with the base link of 11 removed.\<close>

definition unlinked_world :: world where
  "unlinked_world = the_world (SetBaseClass registered_world 11 None)"

definition leaf_wrapper :: StaticObjectWrapper where
  "leaf_wrapper = \<lparr>wrapper_instance = 7, static_object = Some 10\<rparr>"

text \<open>
  A browser whose allocator answers with block 100 or fails, and whose object 5 has the
  element 0 and the property n, and nothing else.
\<close>

definition example_browser :: "bool \<Rightarrow> bool \<Rightarrow> browser" where
  "example_browser alloc_ok workaround =
     \<lparr>memory = Map.empty,
      mem_alloc_answer = (\<lambda>n. if alloc_ok then Some 100 else None),
      has_property_answer =
        (\<lambda>object identifier. object = 5 \<and> (identifier = IntId 0 \<or> identifier = StringId ''n'')),
      get_property_answer =
        (\<lambda>object identifier.
           if object = 5 \<and> identifier = IntId 0 then (True, Some (Int32V 42))
           else if object = 5 \<and> identifier = StringId ''n'' then (True, Some (BoolV True))
           else (False, None)),
      has_property_workaround = workaround,
      calls = []\<rparr>"

section \<open>Properties of the static object graph\<close>

subsection \<open>What a returning call leaves behind\<close>

text \<open>
  Every call of the resolution operations that returns hands back the store it was given,
  except that a successful \<open>GetPropertyInner\<close> has allocated one wrapper.
\<close>


lemma HasMethodInner_frame:
  assumes "HasMethodInner w a m = Some y"
  shows "y = Fault \<or> y = Ret (False, w)"
  using assms
  by (rule HasMethodInner.raw_induct
        [rotated, where P = "\<lambda>w a m y. y = Fault \<or> y = Ret (False, w)"])
     (auto split: option.splits)

lemma HasPropertyInner_frame:
  assumes "HasPropertyInner w a p = Some y"
  shows "y = Fault \<or> (\<exists>r. y = Ret (r, w))"
  using assms
  by (rule HasPropertyInner.raw_induct
        [rotated, where P = "\<lambda>w a p y. y = Fault \<or> (\<exists>r. y = Ret (r, w))"])
     (auto split: option.splits)

lemma CreateWrapper_frame:
  "CreateWrapper w p i = Ret (wa, w') \<Longrightarrow> objects w' = objects w"
  by (auto simp: CreateWrapper_def split: option.splits)

lemma GetPropertyInner_frame:
  assumes "GetPropertyInner w a i p exc res = Some y"
  shows "case y of
      Fault \<Rightarrow> True
    | Ret (ok, e, r, w') \<Rightarrow>
        objects w' = objects w \<and> (ok \<longrightarrow> e = exc) \<and> (\<not> is_null exc \<longrightarrow> e = exc)"
  using assms
  by (rule GetPropertyInner.raw_induct
        [rotated, where P = "\<lambda>w a i p exc res y. case y of
      Fault \<Rightarrow> True
    | Ret (ok, e, r, w') \<Rightarrow>
        objects w' = objects w \<and> (ok \<longrightarrow> e = exc) \<and> (\<not> is_null exc \<longrightarrow> e = exc)"])
     (auto split: option.splits outcome.splits dest: CreateWrapper_frame)

lemma GetAllPropertyNames_frame:
  assumes "GetAllPropertyNames w a ns exc = Some y"
  shows "y = Fault \<or> y = Ret (ns, exc, w)"
  using assms
  by (rule GetAllPropertyNames.raw_induct
        [rotated, where P = "\<lambda>w a ns exc y. y = Fault \<or> y = Ret (ns, exc, w)"])
     (auto split: option.splits)

lemma SetPropertyInner_frame:
  assumes "SetPropertyInner w a n v exc = Some y"
  shows "y = Fault \<or>
     y = Ret (False, (if is_null exc then String ''unknown property'' else exc), w)"
  using assms
proof (rule SetPropertyInner.raw_induct
        [rotated, where P = "\<lambda>w a n v exc y. y = Fault \<or>
     y = Ret (False, (if is_null exc then String ''unknown property'' else exc), w)"])
  fix f w this name val exception y
  assume IH: "\<And>w this name val exception y. f w this name val exception = Some y \<Longrightarrow>
            y = Fault \<or>
            y = Ret (False, if is_null exception then String ''unknown property'' else exception, w)"
    and body: "(case objects w this of
        None \<Rightarrow> Some Fault
      | Some obj \<Rightarrow>
          (case base_class obj of
             Some b \<Rightarrow> f w b name val exception
           | None \<Rightarrow>
               Some (Ret (False,
                          (if is_null exception then String ''unknown property''
                           else exception),
                          w)))) = Some y"
  show "y = Fault \<or>
            y = Ret (False, if is_null exception then String ''unknown property'' else exception, w)"
  proof (cases "objects w this")
    case None
    with body show ?thesis by simp
  next
    case (Some obj)
    show ?thesis
    proof (cases "base_class obj")
      case None
      with Some body show ?thesis by auto
    next
      case (Some b)
      with \<open>objects w this = Some obj\<close> body have "f w b name val exception = Some y" by simp
      then show ?thesis by (rule IH)
    qed
  qed
qed


lemma CallInner_frame:
  assumes "CallInner w a i m args exc res = Some y"
  shows "y = Fault \<or>
     y = Ret (False, (if is_null exc then String ''method does not exist'' else exc), res, w)"
  using assms
proof (rule CallInner.raw_induct
        [rotated, where P = "\<lambda>w a i m args exc res y. y = Fault \<or>
     y = Ret (False, (if is_null exc then String ''method does not exist'' else exc), res, w)"])
  fix f w this inst mname args exception result y
  assume IH: "\<And>w this inst mname args exception result y.
            f w this inst mname args exception result = Some y \<Longrightarrow>
            y = Fault \<or>
            y = Ret (False, if is_null exception then String ''method does not exist''
                            else exception, result, w)"
    and body: "(case objects w this of
        None \<Rightarrow> Some Fault
      | Some obj \<Rightarrow>
          (case base_class obj of
             Some b \<Rightarrow> f w b inst mname args exception result
           | None \<Rightarrow>
               Some (Ret (False,
                          (if is_null exception then String ''method does not exist''
                           else exception),
                          result, w)))) = Some y"
  show "y = Fault \<or>
            y = Ret (False, if is_null exception then String ''method does not exist''
                            else exception, result, w)"
  proof (cases "objects w this")
    case None
    with body show ?thesis by simp
  next
    case (Some obj)
    show ?thesis
    proof (cases "base_class obj")
      case None
      with Some body show ?thesis by auto
    next
      case (Some b)
      with \<open>objects w this = Some obj\<close> body
      have "f w b inst mname args exception result = Some y" by simp
      then show ?thesis by (rule IH)
    qed
  qed
qed

subsection \<open>Resolution along a chain\<close>

lemma HasPropertyInner_found:
  "ancestor w n a = Some e \<Longrightarrow> absent_below w n a p \<Longrightarrow> has_child w e p \<Longrightarrow>
   HasPropertyInner w a p = Some (Ret (True, w))"
proof (induction n arbitrary: a)
  case 0
  then show ?case
    by (subst HasPropertyInner.simps) (auto simp: has_child_def split: option.splits)
next
  case (Suc n)
  then show ?case
    by (subst HasPropertyInner.simps) (auto simp: has_child_def split: option.splits)
qed

lemma GetPropertyInner_found:
  "ancestor w n a = Some e \<Longrightarrow> absent_below w n a p \<Longrightarrow> objects w e = Some eo \<Longrightarrow>
   namespace_objects eo p = Some c \<Longrightarrow>
   GetPropertyInner w a i p exc res =
     (case CreateWrapper w c i of
        Fault \<Rightarrow> Some Fault
      | Ret (wa, w') \<Rightarrow> Some (Ret (True, exc, Object wa, w')))"
proof (induction n arbitrary: a)
  case 0
  then show ?case
    by (subst GetPropertyInner.simps) (auto simp: has_child_def split: option.splits)
next
  case (Suc n)
  then show ?case
    by (subst GetPropertyInner.simps) (auto simp: has_child_def split: option.splits)
qed

lemma HasPropertyInner_absent:
  "chain_ends w n a \<Longrightarrow> absent_below w (Suc n) a p \<Longrightarrow>
   HasPropertyInner w a p = Some (Ret (False, w))"
proof (induction n arbitrary: a)
  case 0
  then show ?case
    by (subst HasPropertyInner.simps) (auto simp: has_child_def chain_ends_def split: option.splits)
next
  case (Suc n)
  then show ?case
    by (subst HasPropertyInner.simps) (auto simp: has_child_def chain_ends_def split: option.splits)
qed

lemma GetPropertyInner_absent:
  "chain_ends w n a \<Longrightarrow> absent_below w (Suc n) a p \<Longrightarrow>
   GetPropertyInner w a i p exc res =
     Some (Ret (False, (if is_null exc then String ''unknown property'' else exc), res, w))"
proof (induction n arbitrary: a)
  case 0
  then show ?case
    by (subst GetPropertyInner.simps) (auto simp: has_child_def chain_ends_def split: option.splits)
next
  case (Suc n)
  then show ?case
    by (subst GetPropertyInner.simps) (auto simp: has_child_def chain_ends_def split: option.splits)
qed

lemma AddNamespaceObject_registers:
  "AddNamespaceObject w0 a p c = Ret w \<Longrightarrow>
   \<exists>obj. objects w a = Some obj \<and> namespace_objects obj p = Some c"
  by (auto simp: AddNamespaceObject_def split: option.splits)

subsection \<open>The example graphs\<close>

lemma registered_world_eval:
  "AddNamespaceObject chain_world 12 ''x'' (Some 13) = Ret registered_world"
  by (simp add: registered_world_def the_world_def AddNamespaceObject_def chain_world_def)

lemma registered_objects:
  "objects registered_world 10 = Some \<lparr>base_class = Some 11, namespace_objects = Map.empty\<rparr>"
  "objects registered_world 11 = Some \<lparr>base_class = Some 12, namespace_objects = Map.empty\<rparr>"
  "objects registered_world 12 = Some \<lparr>base_class = None, namespace_objects = [''x'' \<mapsto> Some 13]\<rparr>"
  "objects registered_world 13 = Some StaticObject_new"
  by (simp_all add: registered_world_def the_world_def AddNamespaceObject_def chain_world_def)

lemma unlinked_objects:
  "objects unlinked_world 10 = Some \<lparr>base_class = Some 11, namespace_objects = Map.empty\<rparr>"
  "objects unlinked_world 11 = Some \<lparr>base_class = None, namespace_objects = Map.empty\<rparr>"
  by (simp_all add: unlinked_world_def the_world_def SetBaseClass_def registered_objects)

lemma unlinked_ends: "chain_ends unlinked_world (Suc 0) 10"
  by (simp add: chain_ends_def unlinked_objects)

lemma registered_ends: "chain_ends registered_world (Suc (Suc 0)) 10"
  by (simp add: chain_ends_def registered_objects)

lemma HasMethodInner_ends:
  "chain_ends w n a \<Longrightarrow> HasMethodInner w a m = Some (Ret (False, w))"
proof (induction n arbitrary: a)
  case 0
  then show ?case
    by (subst HasMethodInner.simps) (auto simp: chain_ends_def split: option.splits)
next
  case (Suc n)
  then show ?case
    by (subst HasMethodInner.simps) (auto simp: chain_ends_def split: option.splits)
qed

lemma GetAllPropertyNames_ends:
  "chain_ends w n a \<Longrightarrow> GetAllPropertyNames w a ns exc = Some (Ret (ns, exc, w))"
proof (induction n arbitrary: a)
  case 0
  then show ?case
    by (subst GetAllPropertyNames.simps) (auto simp: chain_ends_def split: option.splits)
next
  case (Suc n)
  then show ?case
    by (subst GetAllPropertyNames.simps) (auto simp: chain_ends_def split: option.splits)
qed

lemma SetPropertyInner_ends:
  "chain_ends w n a \<Longrightarrow>
   SetPropertyInner w a name v exc =
     Some (Ret (False, (if is_null exc then String ''unknown property'' else exc), w))"
proof (induction n arbitrary: a)
  case 0
  then show ?case
    by (subst SetPropertyInner.simps) (auto simp: chain_ends_def split: option.splits)
next
  case (Suc n)
  then show ?case
    by (subst SetPropertyInner.simps) (auto simp: chain_ends_def split: option.splits)
qed

lemma CallInner_ends:
  "chain_ends w n a \<Longrightarrow>
   CallInner w a i m args exc res =
     Some (Ret (False, (if is_null exc then String ''method does not exist'' else exc), res, w))"
proof (induction n arbitrary: a)
  case 0
  then show ?case
    by (subst CallInner.simps) (auto simp: chain_ends_def split: option.splits)
next
  case (Suc n)
  then show ?case
    by (subst CallInner.simps) (auto simp: chain_ends_def split: option.splits)
qed

lemma registered_absent_y: "absent_below registered_world (Suc (Suc (Suc 0))) 10 ''y''"
  by (simp add: registered_objects has_child_def)

lemma registered_get_y:
  "GetPropertyInner registered_world 10 i ''y'' exc res =
     Some (Ret (False, (if is_null exc then String ''unknown property'' else exc), res,
                registered_world))"
  using registered_ends registered_absent_y by (rule GetPropertyInner_absent)

lemma registered_get_x:
  "GetPropertyInner registered_world 10 7 ''x'' exc res =
     Some (Ret (True, exc, Object 0,
                registered_world\<lparr>wrappers := [\<lparr>wrapper_instance = 7, static_object = Some 13\<rparr>]\<rparr>))"
proof -
  have w0: "wrappers registered_world = []"
    by (simp add: registered_world_def the_world_def AddNamespaceObject_def chain_world_def)
  show ?thesis
    using GetPropertyInner_found [of registered_world "Suc (Suc 0)" 10 12 "''x''" _ "Some 13" 7 exc res]
    by (simp add: registered_objects has_child_def CreateWrapper_def w0)
qed

lemma registered_has_x:
  "HasPropertyInner registered_world 10 ''x'' = Some (Ret (True, registered_world))"
  using HasPropertyInner_found [of registered_world "Suc (Suc 0)" 10 12 "''x''"]
  by (simp add: registered_objects has_child_def)

section \<open>Properties of the text conversion\<close>

text \<open>
  On \<open>OS_LINUX\<close> widening and narrowing again gives every byte back, so the round trip is
  the identity on all inputs. On \<open>OS_WINDOWS\<close> it is the identity when the platform
  conversions invert each other on the input and no zero unit is involved. An input of
  length 0 succeeds at once on both platforms, in both directions.
\<close>

lemma narrow_scast: "(ucast (scast (c :: 8 word) :: 32 word) :: 8 word) = c"
  by (rule bit_word_eqI) (auto simp: bit_ucast_iff bit_word_scast_iff bit_imp_le_length)

lemma narrow_ucast: "(ucast (ucast (c :: 8 word) :: 32 word) :: 8 word) = c"
  by (rule bit_word_eqI) (auto simp: bit_ucast_iff)

lemma narrow_widen: "wchar_to_char (char_to_wchar s c) = c"
  by (simp add: wchar_to_char_def char_to_wchar_def narrow_scast narrow_ucast)

lemma linux_round_trip:
  "String16ToUTF8_linux (snd (UTF8ToString16_linux s inp out16)) out8 = (True, inp)"
  by (simp add: String16ToUTF8_linux_def UTF8ToString16_linux_def narrow_widen comp_def)

lemma zero_length_conversions:
  "UTF8ToString16_linux s [] out16 = (True, [])"
  "String16ToUTF8_linux [] out8 = (True, [])"
  "UTF8ToString16_windows mb2wc [] out16w = (True, [])"
  "String16ToUTF8_windows wc2mb [] out8 = (True, [])"
  by (simp_all add: String16ToUTF8_linux_def UTF8ToString16_linux_def
        UTF8ToString16_windows_def String16ToUTF8_windows_def)

lemma c_str_no_nul: "0 \<notin> set tmp \<Longrightarrow> c_str tmp = tmp"
  by (induction tmp) (auto simp: c_str_def)

lemma windows_round_trip_without_nul:
  "inp \<noteq> [] \<Longrightarrow> 0 \<notin> set inp \<Longrightarrow> mb2wc inp \<noteq> [] \<Longrightarrow> 0 \<notin> set (mb2wc inp) \<Longrightarrow>
   wc2mb (mb2wc inp) = inp \<Longrightarrow>
   String16ToUTF8_windows wc2mb (snd (UTF8ToString16_windows mb2wc inp out16)) out8 = (True, inp)"
  by (simp add: UTF8ToString16_windows_def String16ToUTF8_windows_def c_str_no_nul Let_def)

section \<open>Claims\<close>

text \<open>
  C1. A property that the ancestor at depth \<open>n\<close> of a leaf holds among its children, as
  \<open>AddNamespaceObject\<close> leaves it there, and that no nearer object of the base chain
  holds, is reported present by
  \<open>HasPropertyInner\<close> on the leaf, and \<open>GetPropertyInner\<close> on the leaf returns true with
  a new wrapper of the registered object as result and the exception slot untouched.
  When instead the chain ends at depth \<open>k\<close> (the base link there is null) and no object
  down to that depth has the property, \<open>HasPropertyInner\<close> returns false and
  \<open>GetPropertyInner\<close> returns false.
\<close>

theorem inherited_property_resolves:
  "(objects w anc = Some ao \<and> namespace_objects ao property = Some (Some child) \<and>
    objects w child \<noteq> None \<and>
    ancestor w n leaf = Some anc \<and> absent_below w n leaf property \<longrightarrow>
      HasPropertyInner w leaf property = Some (Ret (True, w)) \<and>
      GetPropertyInner w leaf inst property exception result =
        Some (Ret (True, exception, Object (length (wrappers w)),
                   w\<lparr>wrappers := wrappers w @
                        [\<lparr>wrapper_instance = inst, static_object = Some child\<rparr>]\<rparr>))) \<and>
   (chain_ends w k leaf \<and> absent_below w (Suc k) leaf property \<longrightarrow>
      HasPropertyInner w leaf property = Some (Ret (False, w)) \<and>
      GetPropertyInner w leaf inst property exception result =
        Some (Ret (False,
                   (if is_null exception then String ''unknown property'' else exception),
                   result, w)))"
proof (intro conjI impI)
  assume h: "objects w anc = Some ao \<and> namespace_objects ao property = Some (Some child) \<and>
    objects w child \<noteq> None \<and> ancestor w n leaf = Some anc \<and> absent_below w n leaf property"
  then have ao: "objects w anc = Some ao" "namespace_objects ao property = Some (Some child)"
    by simp_all
  from h obtain co where co: "objects w child = Some co" by auto
  from ao have "has_child w anc property" by (simp add: has_child_def)
  with h show "HasPropertyInner w leaf property = Some (Ret (True, w))"
    using HasPropertyInner_found [of w n leaf anc property] by simp
  have "CreateWrapper w (Some child) inst =
          Ret (length (wrappers w),
               w\<lparr>wrappers := wrappers w @ [\<lparr>wrapper_instance = inst, static_object = Some child\<rparr>]\<rparr>)"
    using co by (simp add: CreateWrapper_def)
  with h ao show "GetPropertyInner w leaf inst property exception result =
        Some (Ret (True, exception, Object (length (wrappers w)),
                   w\<lparr>wrappers := wrappers w @
                        [\<lparr>wrapper_instance = inst, static_object = Some child\<rparr>]\<rparr>))"
    using GetPropertyInner_found [of w n leaf anc property ao "Some child" inst exception result]
    by simp
next
  assume "chain_ends w k leaf \<and> absent_below w (Suc k) leaf property"
  then show "HasPropertyInner w leaf property = Some (Ret (False, w))"
    by (elim conjE) (rule HasPropertyInner_absent)
next
  assume "chain_ends w k leaf \<and> absent_below w (Suc k) leaf property"
  then show "GetPropertyInner w leaf inst property exception result =
        Some (Ret (False,
                   (if is_null exception then String ''unknown property'' else exception),
                   result, w))"
    by (elim conjE) (rule GetPropertyInner_absent)
qed

theorem inherited_property_resolves_witness:
  "AddNamespaceObject chain_world 12 ''x'' (Some 13) = Ret registered_world \<and>
   objects registered_world 12 =
     Some \<lparr>base_class = None, namespace_objects = [''x'' \<mapsto> Some 13]\<rparr> \<and>
   objects registered_world 13 \<noteq> None \<and>
   ancestor registered_world (Suc (Suc 0)) 10 = Some 12 \<and>
   absent_below registered_world (Suc (Suc 0)) 10 ''x'' \<and>
   HasPropertyInner registered_world 10 ''x'' = Some (Ret (True, registered_world)) \<and>
   GetPropertyInner registered_world 10 7 ''x'' Null Undefined =
     Some (Ret (True, Null, Object 0,
                registered_world\<lparr>wrappers := [\<lparr>wrapper_instance = 7, static_object = Some 13\<rparr>]\<rparr>)) \<and>
   chain_ends unlinked_world (Suc 0) 10 \<and>
   absent_below unlinked_world (Suc (Suc 0)) 10 ''x'' \<and>
   HasPropertyInner unlinked_world 10 ''x'' = Some (Ret (False, unlinked_world)) \<and>
   GetPropertyInner unlinked_world 10 7 ''x'' Null Undefined =
     Some (Ret (False, String ''unknown property'', Undefined, unlinked_world))"
proof -
  have a: "ancestor registered_world (Suc (Suc 0)) 10 = Some 12"
    by (simp add: registered_objects)
  have b: "absent_below registered_world (Suc (Suc 0)) 10 ''x''"
    by (simp add: registered_objects has_child_def)
  have c: "chain_ends unlinked_world (Suc 0) 10"
    by (simp add: chain_ends_def unlinked_objects)
  have d: "absent_below unlinked_world (Suc (Suc 0)) 10 ''x''"
    by (simp add: unlinked_objects has_child_def)
  have w0: "wrappers registered_world = []"
    by (simp add: registered_world_def the_world_def AddNamespaceObject_def chain_world_def)
  show ?thesis
    using inherited_property_resolves
            [where w = registered_world and anc = 12 and property = "''x''" and child = 13
               and ao = "\<lparr>base_class = None, namespace_objects = [''x'' \<mapsto> Some 13]\<rparr>"
               and n = "Suc (Suc 0)" and leaf = 10 and inst = 7 and exception = Null
               and result = Undefined]
          inherited_property_resolves
            [where w = unlinked_world and property = "''x''" and k = "Suc 0" and leaf = 10
               and inst = 7 and exception = Null and result = Undefined]
          registered_world_eval a b c d w0
    by (simp add: registered_objects is_null_def)
qed


text \<open>
  C2. When the base chain of the object ends and no object on it has the name,
  \<open>GetPropertyInner\<close> returns false, leaves the result slot and the store alone, and puts
  the string "unknown property" into the exception slot exactly when the slot was null on
  entry. A second unknown lookup that is handed the exception slot left by a first one
  that started from a null slot leaves the single string "unknown property" there.
\<close>

theorem unknown_property_sets_one_exception:
  "chain_ends w n leaf \<Longrightarrow> absent_below w (Suc n) leaf name \<Longrightarrow>
   chain_ends w m leaf2 \<Longrightarrow> absent_below w (Suc m) leaf2 name2 \<Longrightarrow>
   GetPropertyInner w leaf inst name exception result =
     Some (Ret (False,
                (if is_null exception then String ''unknown property'' else exception),
                result, w)) \<and>
   (\<forall>e1 r1 w1.
      GetPropertyInner w leaf inst name Null result = Some (Ret (False, e1, r1, w1)) \<longrightarrow>
      GetPropertyInner w1 leaf2 inst name2 e1 r1 =
        Some (Ret (False, String ''unknown property'', result, w)))"
proof -
  assume h: "chain_ends w n leaf" "absent_below w (Suc n) leaf name"
    and h2: "chain_ends w m leaf2" "absent_below w (Suc m) leaf2 name2"
  have first: "GetPropertyInner w leaf inst name e result =
     Some (Ret (False, (if is_null e then String ''unknown property'' else e), result, w))" for e
    using h by (rule GetPropertyInner_absent)
  have second: "GetPropertyInner w leaf2 inst name2 (String ''unknown property'') result =
     Some (Ret (False, String ''unknown property'', result, w))"
    using GetPropertyInner_absent [OF h2, of inst "String ''unknown property''" result]
    by (simp add: is_null_def)
  show ?thesis
    using first [of exception] first [of Null] second by (simp add: is_null_def)
qed

theorem unknown_property_sets_one_exception_witness:
  "chain_ends registered_world (Suc (Suc 0)) 10 \<and>
   absent_below registered_world (Suc (Suc (Suc 0))) 10 ''y'' \<and>
   chain_ends registered_world 0 12 \<and>
   absent_below registered_world (Suc 0) 12 ''z'' \<and>
   GetPropertyInner registered_world 10 7 ''y'' Null Undefined =
     Some (Ret (False, String ''unknown property'', Undefined, registered_world)) \<and>
   GetPropertyInner registered_world 10 7 ''y'' (String ''earlier'') Undefined =
     Some (Ret (False, String ''earlier'', Undefined, registered_world)) \<and>
   GetPropertyInner registered_world 10 7 ''y'' Undefined Undefined =
     Some (Ret (False, Undefined, Undefined, registered_world)) \<and>
   GetPropertyInner registered_world 12 7 ''z'' (String ''unknown property'') Undefined =
     Some (Ret (False, String ''unknown property'', Undefined, registered_world))"
proof -
  have a: "absent_below registered_world (Suc (Suc (Suc 0))) 10 ''y''"
    by (simp add: registered_objects has_child_def)
  have b: "chain_ends registered_world 0 12"
    by (simp add: chain_ends_def registered_objects)
  have c: "absent_below registered_world (Suc 0) 12 ''z''"
    by (simp add: registered_objects has_child_def)
  note t = unknown_property_sets_one_exception [OF registered_ends a b c]
  show ?thesis
    using t [of 7 Null Undefined] t [of 7 "String ''earlier''" Undefined]
          t [of 7 Undefined Undefined] registered_ends a b c
    by (simp add: is_null_def)
qed

text \<open>
  C3. \<open>ConstructInner\<close> of the base class returns false with the exception slot holding
  "missing constructor", for every instance, argument list (the empty one too) and
  previous content of the exception slot.
\<close>

theorem construct_always_missing_constructor:
  "ConstructInner w this inst args exception result =
     Ret (False, String ''missing constructor'', result, w) \<and>
   ConstructInner w this inst [] exception result =
     Ret (False, String ''missing constructor'', result, w)"
  by (simp add: ConstructInner_def)

text \<open>
  C4. The wrapper's \<open>Call\<close> with an undefined method name gives exactly what its
  \<open>Construct\<close> gives on the same arguments and exception slot; on a wrapper of a live
  object that is the undefined result with the exception "missing constructor", the answer
  of \<open>ConstructInner\<close> and not the "method does not exist" of \<open>CallInner\<close>.
\<close>

theorem call_undefined_is_construct:
  "Call w sw Undefined args exception = Construct w sw args exception \<and>
   (static_object sw = Some a \<and> objects w a = Some obj \<longrightarrow>
      Call w sw Undefined args exception =
        Some (Ret (Undefined, String ''missing constructor'', w)))"
  by (simp add: Call_def is_undefined_def Construct_def ConstructInner_def)

theorem call_undefined_is_construct_witness:
  "static_object leaf_wrapper = Some 10 \<and>
   objects registered_world 10 = Some \<lparr>base_class = Some 11, namespace_objects = Map.empty\<rparr> \<and>
   Call registered_world leaf_wrapper Undefined [Number 1] Null =
     Construct registered_world leaf_wrapper [Number 1] Null \<and>
   Call registered_world leaf_wrapper Undefined [Number 1] Null =
     Some (Ret (Undefined, String ''missing constructor'', registered_world))"
  using call_undefined_is_construct
          [of registered_world leaf_wrapper "[Number 1]" Null 10
              "\<lparr>base_class = Some 11, namespace_objects = Map.empty\<rparr>"]
  by (auto simp: leaf_wrapper_def registered_objects)

text \<open>
  C6. Registering a name twice on an object makes \<open>GetNamespaceObject\<close> on that object
  return the second pointer. \<open>GetNamespaceObject\<close> looks at the object's own children
  only: for a name that is not among them it returns null, whatever the base chain holds.
\<close>

theorem namespace_last_write_wins_direct_lookup:
  "(AddNamespaceObject w this name A = Ret w1 \<and> AddNamespaceObject w1 this name B = Ret w2 \<longrightarrow>
      GetNamespaceObject w2 this name = Ret B) \<and>
   (objects w this = Some obj \<and> namespace_objects obj name = None \<longrightarrow>
      GetNamespaceObject w this name = Ret None)"
  by (auto simp: AddNamespaceObject_def GetNamespaceObject_def split: option.splits)

theorem namespace_last_write_wins_direct_lookup_witness:
  "AddNamespaceObject chain_world 10 ''x'' (Some 11) = Ret (the_world (AddNamespaceObject chain_world 10 ''x'' (Some 11))) \<and>
   AddNamespaceObject (the_world (AddNamespaceObject chain_world 10 ''x'' (Some 11))) 10 ''x'' (Some 13) =
     Ret (the_world (AddNamespaceObject (the_world (AddNamespaceObject chain_world 10 ''x'' (Some 11))) 10 ''x'' (Some 13))) \<and>
   GetNamespaceObject (the_world (AddNamespaceObject (the_world (AddNamespaceObject chain_world 10 ''x'' (Some 11))) 10 ''x'' (Some 13))) 10 ''x'' = Ret (Some 13) \<and>
   objects registered_world 10 = Some \<lparr>base_class = Some 11, namespace_objects = Map.empty\<rparr> \<and>
   HasPropertyInner registered_world 10 ''x'' = Some (Ret (True, registered_world)) \<and>
   GetNamespaceObject registered_world 10 ''x'' = Ret None"
proof -
  let ?w1 = "the_world (AddNamespaceObject chain_world 10 ''x'' (Some 11))"
  let ?w2 = "the_world (AddNamespaceObject ?w1 10 ''x'' (Some 13))"
  have a: "AddNamespaceObject chain_world 10 ''x'' (Some 11) = Ret ?w1"
    by (simp add: the_world_def AddNamespaceObject_def chain_world_def)
  have b: "AddNamespaceObject ?w1 10 ''x'' (Some 13) = Ret ?w2"
    by (simp add: the_world_def AddNamespaceObject_def chain_world_def)
  have c: "HasPropertyInner registered_world 10 ''x'' = Some (Ret (True, registered_world))"
    using HasPropertyInner_found [of registered_world "Suc (Suc 0)" 10 12 "''x''"]
    by (simp add: registered_objects has_child_def)
  show ?thesis
    using namespace_last_write_wins_direct_lookup
            [of chain_world 10 "''x''" "Some 11" ?w1 "Some 13" ?w2]
          namespace_last_write_wins_direct_lookup
            [of registered_world 10 "''x''" _ _ _ _ "\<lparr>base_class = Some 11, namespace_objects = Map.empty\<rparr>"]
          a b c
    by (simp add: registered_objects)
qed

text \<open>
  C5, as stated: no entry point overwrites an exception slot that is not null on entry.
  \<open>ConstructInner\<close> and the wrapper's check of the method name do: called with the
  exception slot holding the string "earlier", each returns with its own message there.
\<close>

theorem first_writer_wins_counterexample:
  "ConstructInner registered_world 10 7 [] (String ''earlier'') Undefined =
     Ret (False, String ''missing constructor'', Undefined, registered_world) \<and>
   HasMethod registered_world leaf_wrapper (Number 3) (String ''earlier'') =
     Some (Ret (False, String ''method name is not a string'', registered_world)) \<and>
   \<not> is_null (String ''earlier'') \<and>
   String ''missing constructor'' \<noteq> String ''earlier'' \<and>
   String ''method name is not a string'' \<noteq> String ''earlier''"
  by (simp add: ConstructInner_def HasMethod_def is_null_def)

text \<open>
  C5, amended. The operations that walk the base chain, \<open>GetPropertyInner\<close>,
  \<open>SetPropertyInner\<close> and \<open>CallInner\<close>, return with the exception slot as it was on
  entry whenever it was not null on entry, and so do the wrapper's operations when the
  name they are given is a string. \<open>ConstructInner\<close> stores "missing constructor" and the
  wrapper's type checks store their message whatever the slot held.
\<close>

theorem first_writer_wins_on_chain_walks:
  "(\<not> is_null exception \<longrightarrow>
      (\<forall>ok e r w'. GetPropertyInner w a inst name exception result = Some (Ret (ok, e, r, w'))
         \<longrightarrow> e = exception) \<and>
      (\<forall>ok e w'. SetPropertyInner w a name val exception = Some (Ret (ok, e, w'))
         \<longrightarrow> e = exception) \<and>
      (\<forall>ok e r w'. CallInner w a inst name args exception result = Some (Ret (ok, e, r, w'))
         \<longrightarrow> e = exception) \<and>
      (is_string v \<longrightarrow>
         (\<forall>r e w'. GetProperty w sw v exception = Some (Ret (r, e, w')) \<longrightarrow> e = exception) \<and>
         (\<forall>e w'. SetProperty w sw v val exception = Some (Ret (e, w')) \<longrightarrow> e = exception) \<and>
         (\<forall>r e w'. Call w sw v args exception = Some (Ret (r, e, w')) \<longrightarrow> e = exception) \<and>
         (\<forall>r e w'. HasMethod w sw v exception = Some (Ret (r, e, w')) \<longrightarrow> e = exception) \<and>
         (\<forall>r e w'. HasProperty w sw v exception = Some (Ret (r, e, w')) \<longrightarrow> e = exception))) \<and>
   ConstructInner w a inst args exception result =
     Ret (False, String ''missing constructor'', result, w) \<and>
   (\<not> is_string v \<longrightarrow>
      HasMethod w sw v exception =
        Some (Ret (False, String ''method name is not a string'', w)) \<and>
      HasProperty w sw v exception =
        Some (Ret (False, String ''property name is not a string'', w)) \<and>
      GetProperty w sw v exception =
        Some (Ret (Undefined, String ''property name is not a string'', w)) \<and>
      SetProperty w sw v val exception =
        Some (Ret (String ''property name is not a string'', w)) \<and>
      (\<not> is_undefined v \<longrightarrow>
         Call w sw v args exception =
           Some (Ret (Undefined, String ''method name is not a string'', w))))"
proof (intro conjI impI allI)
  fix ok e r w'
  assume n: "\<not> is_null exception"
    and g: "GetPropertyInner w a inst name exception result = Some (Ret (ok, e, r, w'))"
  from GetPropertyInner_frame [OF g] n show "e = exception" by simp
next
  fix ok e w'
  assume n: "\<not> is_null exception"
    and g: "SetPropertyInner w a name val exception = Some (Ret (ok, e, w'))"
  from SetPropertyInner_frame [OF g] n show "e = exception" by simp
next
  fix ok e r w'
  assume n: "\<not> is_null exception"
    and g: "CallInner w a inst name args exception result = Some (Ret (ok, e, r, w'))"
  from CallInner_frame [OF g] n show "e = exception" by simp
next
  fix r e w'
  assume n: "\<not> is_null exception" and s: "is_string v"
    and g: "GetProperty w sw v exception = Some (Ret (r, e, w'))"
  from g s obtain a' ok where
    "GetPropertyInner w a' (plugin_instance sw) (AsString v) exception Undefined =
       Some (Ret (ok, e, r, w'))"
    by (auto simp: GetProperty_def split: option.splits outcome.splits)
  from GetPropertyInner_frame [OF this] n show "e = exception" by simp
next
  fix e w'
  assume n: "\<not> is_null exception" and s: "is_string v"
    and g: "SetProperty w sw v val exception = Some (Ret (e, w'))"
  from g s obtain a' ok where
    "SetPropertyInner w a' (AsString v) val exception = Some (Ret (ok, e, w'))"
    by (auto simp: SetProperty_def split: option.splits outcome.splits)
  from SetPropertyInner_frame [OF this] n show "e = exception" by simp
next
  fix r e w'
  assume n: "\<not> is_null exception" and s: "is_string v"
    and g: "Call w sw v args exception = Some (Ret (r, e, w'))"
  from s have "\<not> is_undefined v" by (cases v) (simp_all add: is_undefined_def)
  with g s obtain a' ok where
    "CallInner w a' (plugin_instance sw) (AsString v) args exception Undefined =
       Some (Ret (ok, e, r, w'))"
    by (auto simp: Call_def split: option.splits outcome.splits)
  from CallInner_frame [OF this] n show "e = exception" by simp
next
  fix r e w'
  assume s: "is_string v"
    and g: "HasMethod w sw v exception = Some (Ret (r, e, w'))"
  then show "e = exception"
    by (auto simp: HasMethod_def split: option.splits outcome.splits)
next
  fix r e w'
  assume s: "is_string v"
    and g: "HasProperty w sw v exception = Some (Ret (r, e, w'))"
  then show "e = exception"
    by (auto simp: HasProperty_def split: option.splits outcome.splits)
qed (simp_all add: ConstructInner_def HasMethod_def HasProperty_def GetProperty_def
       SetProperty_def Call_def)

theorem first_writer_wins_on_chain_walks_witness:
  "\<not> is_null (String ''earlier'') \<and>
   GetPropertyInner registered_world 10 7 ''y'' (String ''earlier'') Undefined =
     Some (Ret (False, String ''earlier'', Undefined, registered_world)) \<and>
   SetPropertyInner registered_world 10 ''y'' (Number 1) (String ''earlier'') =
     Some (Ret (False, String ''earlier'', registered_world)) \<and>
   CallInner registered_world 10 7 ''y'' [] (String ''earlier'') Undefined =
     Some (Ret (False, String ''earlier'', Undefined, registered_world)) \<and>
   is_string (String ''y'') \<and>
   GetProperty registered_world leaf_wrapper (String ''y'') (String ''earlier'') =
     Some (Ret (Undefined, String ''earlier'', registered_world)) \<and>
   SetProperty registered_world leaf_wrapper (String ''y'') (Number 1) (String ''earlier'') =
     Some (Ret (String ''earlier'', registered_world)) \<and>
   Call registered_world leaf_wrapper (String ''y'') [] (String ''earlier'') =
     Some (Ret (Undefined, String ''earlier'', registered_world)) \<and>
   HasMethod registered_world leaf_wrapper (String ''y'') (String ''earlier'') =
     Some (Ret (False, String ''earlier'', registered_world)) \<and>
   HasProperty registered_world leaf_wrapper (String ''y'') (String ''earlier'') =
     Some (Ret (False, String ''earlier'', registered_world)) \<and>
   \<not> is_string (Number 3) \<and> \<not> is_undefined (Number 3) \<and>
   HasMethod registered_world leaf_wrapper (Number 3) (String ''earlier'') =
     Some (Ret (False, String ''method name is not a string'', registered_world)) \<and>
   Call registered_world leaf_wrapper (Number 3) [] (String ''earlier'') =
     Some (Ret (Undefined, String ''method name is not a string'', registered_world))"
proof -
  have hp: "HasPropertyInner registered_world 10 ''y'' = Some (Ret (False, registered_world))"
    using registered_ends registered_absent_y by (rule HasPropertyInner_absent)
  note t = first_writer_wins_on_chain_walks
             [where exception = "String ''earlier''" and w = registered_world and a = 10
                and inst = 7 and name = "''y''" and result = Undefined and val = "Number 1"
                and args = "[]" and sw = leaf_wrapper]
  show ?thesis
    using t [where v = "String ''y''"] t [where v = "Number 3"]
    by (simp add: is_null_def is_undefined_def registered_get_y
          SetPropertyInner_ends [OF registered_ends] CallInner_ends [OF registered_ends]
          HasMethodInner_ends [OF registered_ends] hp
          GetProperty_def SetProperty_def Call_def HasMethod_def HasProperty_def
          leaf_wrapper_def plugin_instance_def)
qed

text \<open>
  C10. Whenever one of \<open>HasMethodInner\<close>, \<open>HasPropertyInner\<close>, \<open>GetPropertyInner\<close>,
  \<open>SetPropertyInner\<close>, \<open>CallInner\<close>, \<open>ConstructInner\<close> and \<open>GetAllPropertyNames\<close> returns,
  the objects of the store, with their children maps and base links, are those it was
  called with, whether it succeeded or failed; and a \<open>GetPropertyInner\<close> that returns true
  returns the exception slot it was given.
\<close>

theorem resolution_leaves_graph_unchanged:
  "(\<forall>r w'. HasMethodInner w a name = Some (Ret (r, w')) \<longrightarrow> objects w' = objects w) \<and>
   (\<forall>r w'. HasPropertyInner w a name = Some (Ret (r, w')) \<longrightarrow> objects w' = objects w) \<and>
   (\<forall>ok e r w'. GetPropertyInner w a inst name exception result = Some (Ret (ok, e, r, w'))
      \<longrightarrow> objects w' = objects w \<and> (ok \<longrightarrow> e = exception)) \<and>
   (\<forall>ok e w'. SetPropertyInner w a name val exception = Some (Ret (ok, e, w'))
      \<longrightarrow> objects w' = objects w) \<and>
   (\<forall>ok e r w'. CallInner w a inst name args exception result = Some (Ret (ok, e, r, w'))
      \<longrightarrow> objects w' = objects w) \<and>
   (\<forall>ok e r w'. ConstructInner w a inst args exception result = Ret (ok, e, r, w')
      \<longrightarrow> objects w' = objects w) \<and>
   (\<forall>ns e w'. GetAllPropertyNames w a names exception = Some (Ret (ns, e, w'))
      \<longrightarrow> objects w' = objects w)"
proof (intro conjI allI impI)
  fix r w'
  assume "HasMethodInner w a name = Some (Ret (r, w'))"
  from HasMethodInner_frame [OF this] show "objects w' = objects w" by simp
next
  fix r w'
  assume "HasPropertyInner w a name = Some (Ret (r, w'))"
  from HasPropertyInner_frame [OF this] show "objects w' = objects w" by simp
next
  fix ok e r w'
  assume g: "GetPropertyInner w a inst name exception result = Some (Ret (ok, e, r, w'))"
  from GetPropertyInner_frame [OF g] show "objects w' = objects w" by simp
  assume ok
  with GetPropertyInner_frame [OF g] show "e = exception" by simp
next
  fix ok e w'
  assume "SetPropertyInner w a name val exception = Some (Ret (ok, e, w'))"
  from SetPropertyInner_frame [OF this] show "objects w' = objects w" by simp
next
  fix ok e r w'
  assume "CallInner w a inst name args exception result = Some (Ret (ok, e, r, w'))"
  from CallInner_frame [OF this] show "objects w' = objects w" by simp
next
  fix ok e r w'
  assume "ConstructInner w a inst args exception result = Ret (ok, e, r, w')"
  then show "objects w' = objects w" by (simp add: ConstructInner_def)
next
  fix ns e w'
  assume "GetAllPropertyNames w a names exception = Some (Ret (ns, e, w'))"
  from GetAllPropertyNames_frame [OF this] show "objects w' = objects w" by simp
qed

theorem resolution_leaves_graph_unchanged_witness:
  "HasMethodInner registered_world 10 ''x'' = Some (Ret (False, registered_world)) \<and>
   HasPropertyInner registered_world 10 ''x'' = Some (Ret (True, registered_world)) \<and>
   GetPropertyInner registered_world 10 7 ''x'' (String ''earlier'') Undefined =
     Some (Ret (True, String ''earlier'', Object 0,
                registered_world\<lparr>wrappers := [\<lparr>wrapper_instance = 7, static_object = Some 13\<rparr>]\<rparr>)) \<and>
   objects (registered_world\<lparr>wrappers := [\<lparr>wrapper_instance = 7, static_object = Some 13\<rparr>]\<rparr>) =
     objects registered_world \<and>
   SetPropertyInner registered_world 10 ''x'' (Number 1) (String ''earlier'') =
     Some (Ret (False, String ''earlier'', registered_world)) \<and>
   CallInner registered_world 10 7 ''x'' [] (String ''earlier'') Undefined =
     Some (Ret (False, String ''earlier'', Undefined, registered_world)) \<and>
   ConstructInner registered_world 10 7 [] (String ''earlier'') Undefined =
     Ret (False, String ''missing constructor'', Undefined, registered_world) \<and>
   GetAllPropertyNames registered_world 10 [] (String ''earlier'') =
     Some (Ret ([], String ''earlier'', registered_world))"
  using resolution_leaves_graph_unchanged
          [where w = registered_world and a = 10 and name = "''x''" and inst = 7
             and exception = "String ''earlier''" and result = Undefined and val = "Number 1"
             and args = "[]" and names = "[]"]
  by (simp add: is_null_def registered_get_x registered_has_x ConstructInner_def
        SetPropertyInner_ends [OF registered_ends] CallInner_ends [OF registered_ends]
        HasMethodInner_ends [OF registered_ends] GetAllPropertyNames_ends [OF registered_ends])




text \<open>
  C9. With the workaround on, \<open>GetNPArrayProperty\<close> is the host's fetch alone: no probe is
  made and the result is the fetch's. With the workaround off it probes first, and when
  the probe fails it returns false, leaves the output alone and does not fetch.
  \<open>GetNPObjectProperty\<close> always probes first, and likewise returns false without a fetch
  when the probe fails. After a successful probe both return what the fetch returns.
\<close>

theorem property_fetch_probes:
  "(IsHasPropertyWorkaround b \<longrightarrow>
      GetNPArrayProperty b npp object index output =
        NPN_GetProperty b npp object (NPN_GetIntIdentifier index) output \<and>
      fst (GetNPArrayProperty b npp object index output) =
        fst (get_property_answer b object (IntId index)) \<and>
      calls (snd (snd (GetNPArrayProperty b npp object index output))) =
        calls b @ [GetPropertyCall object (IntId index)]) \<and>
   (\<not> IsHasPropertyWorkaround b \<and> \<not> has_property_answer b object (IntId index) \<longrightarrow>
      GetNPArrayProperty b npp object index output =
        (False, output, b\<lparr>calls := calls b @ [HasPropertyCall object (IntId index)]\<rparr>)) \<and>
   (\<not> IsHasPropertyWorkaround b \<and> has_property_answer b object (IntId index) \<longrightarrow>
      fst (GetNPArrayProperty b npp object index output) =
        fst (get_property_answer b object (IntId index)) \<and>
      calls (snd (snd (GetNPArrayProperty b npp object index output))) =
        calls b @ [HasPropertyCall object (IntId index), GetPropertyCall object (IntId index)]) \<and>
   (\<not> has_property_answer b object (StringId name) \<longrightarrow>
      GetNPObjectProperty b npp object name output =
        (False, output, b\<lparr>calls := calls b @ [HasPropertyCall object (StringId name)]\<rparr>)) \<and>
   (has_property_answer b object (StringId name) \<longrightarrow>
      fst (GetNPObjectProperty b npp object name output) =
        fst (get_property_answer b object (StringId name)) \<and>
      calls (snd (snd (GetNPObjectProperty b npp object name output))) =
        calls b @ [HasPropertyCall object (StringId name), GetPropertyCall object (StringId name)])"
  by (auto simp: GetNPArrayProperty_def GetNPObjectProperty_def NPN_GetProperty_def
        NPN_HasProperty_def NPN_GetIntIdentifier_def NPN_GetStringIdentifier_def
        IsHasPropertyWorkaround_def Let_def split: prod.splits)

theorem property_fetch_probes_witness:
  "IsHasPropertyWorkaround (example_browser True True) \<and>
   GetNPArrayProperty (example_browser True True) 1 5 9 VoidV =
     (False, VoidV, (example_browser True True)\<lparr>calls := [GetPropertyCall 5 (IntId 9)]\<rparr>) \<and>
   GetNPArrayProperty (example_browser True True) 1 5 0 VoidV =
     (True, Int32V 42, (example_browser True True)\<lparr>calls := [GetPropertyCall 5 (IntId 0)]\<rparr>) \<and>
   \<not> IsHasPropertyWorkaround (example_browser True False) \<and>
   \<not> has_property_answer (example_browser True False) 5 (IntId 9) \<and>
   GetNPArrayProperty (example_browser True False) 1 5 9 VoidV =
     (False, VoidV, (example_browser True False)\<lparr>calls := [HasPropertyCall 5 (IntId 9)]\<rparr>) \<and>
   has_property_answer (example_browser True False) 5 (IntId 0) \<and>
   GetNPArrayProperty (example_browser True False) 1 5 0 VoidV =
     (True, Int32V 42,
      (example_browser True False)\<lparr>calls := [HasPropertyCall 5 (IntId 0), GetPropertyCall 5 (IntId 0)]\<rparr>) \<and>
   \<not> has_property_answer (example_browser True True) 5 (StringId ''m'') \<and>
   GetNPObjectProperty (example_browser True True) 1 5 ''m'' VoidV =
     (False, VoidV, (example_browser True True)\<lparr>calls := [HasPropertyCall 5 (StringId ''m'')]\<rparr>) \<and>
   has_property_answer (example_browser True True) 5 (StringId ''n'') \<and>
   GetNPObjectProperty (example_browser True True) 1 5 ''n'' VoidV =
     (True, BoolV True,
      (example_browser True True)\<lparr>calls := [HasPropertyCall 5 (StringId ''n''),
                                              GetPropertyCall 5 (StringId ''n'')]\<rparr>)"
  using property_fetch_probes [of "example_browser True True" 1 5 9 VoidV "''m''"]
        property_fetch_probes [of "example_browser True True" 1 5 0 VoidV "''n''"]
        property_fetch_probes [of "example_browser True False" 1 5 9 VoidV "''m''"]
        property_fetch_probes [of "example_browser True False" 1 5 0 VoidV "''n''"]
  by (simp add: example_browser_def GetNPArrayProperty_def GetNPObjectProperty_def
        NPN_GetProperty_def NPN_HasProperty_def NPN_GetIntIdentifier_def
        NPN_GetStringIdentifier_def IsHasPropertyWorkaround_def Let_def)

text \<open>
  C7. On \<open>OS_WINDOWS\<close> the round trip does not give back an input that holds a zero byte:
  the three bytes 61 00 62 are valid UTF-8, the platform conversion yields the three units
  61 00 62, and the assignment of the zero-terminated buffer keeps the first unit only, so
  \<open>UTF8ToString16\<close> returns true with a string of one unit and \<open>String16ToUTF8\<close> of that
  string returns true with the single byte 61.
\<close>

theorem windows_round_trip_truncates_at_nul:
  "UTF8ToString16_windows widen_units [0x61, 0x00, 0x62] [] = (True, [0x61]) \<and>
   String16ToUTF8_windows narrow_units [0x61] [] = (True, [0x61]) \<and>
   [0x61] \<noteq> [0x61, 0x00, 0x62 :: byte]"
  by (simp add: UTF8ToString16_windows_def String16ToUTF8_windows_def widen_units_def
        narrow_units_def c_str_def)

end
